theory Spec2Isabelle
  imports Main
begin

section \<open>The Footer component of src/components/Footer.jsx\<close>

text \<open>
  The repository holds one React class component, \<^verbatim>\<open>Footer\<close>, whose only method is
  \<^verbatim>\<open>render()\<close>. The method body is a single \<^verbatim>\<open>return\<close> of a JSX literal. The embedding
  keeps the two levels the source has: the JSX literal as it is written in the file
  (with the whitespace between the tags), and the element tree that evaluating the
  literal produces.
\<close>

subsection \<open>JSX syntax and element trees\<close>

type_synonym attributes = "(string \<times> string) list"

text \<open>
  A JSX element as written: tag name, attributes in source order, and the children
  between the opening and the closing tag. A child is either raw text (everything between
  two tags, line breaks and indentation included) or a nested element.
\<close>

datatype jsx_element = JSXElement string attributes "jsx_child list"
  and jsx_child = JSXText string | JSXChild jsx_element

text \<open>
  The value of a JSX expression: an element with its type, its props (other than
  children) and its children, or a text child.
\<close>

datatype node = Element string attributes "node list" | Text string

text \<open>
  A call of a JavaScript function completes normally with a value or abruptly with a
  thrown exception.
\<close>

datatype 'a completion = Return 'a | Throw string

text \<open>
  An instance of a class extending \<^verbatim>\<open>React.Component\<close>: the fields \<^verbatim>\<open>this.props\<close>,
  \<^verbatim>\<open>this.state\<close> and \<^verbatim>\<open>this.context\<close> (here \<open>ctxt\<close>) a method can read.
\<close>

record ('p, 's, 'c) component =
  props :: 'p
  state :: 's
  ctxt :: 'c

subsection \<open>Whitespace in JSX text\<close>

definition LF :: char where
  "LF = CHR 0x0A"

definition CR :: char where
  "CR = CHR 0x0D"

definition TAB :: char where
  "TAB = CHR 0x09"

definition FF :: char where
  "FF = CHR 0x0C"

definition SP :: char where
  "SP = CHR '' ''"

text \<open>
  JSX text is split into lines at CR LF, LF or CR. Tabs count as spaces. Spaces are
  removed at the start of every line but the first and at the end of every line but the
  last; lines that are empty afterwards are dropped, and the remaining lines are joined
  with one space. Text that is empty afterwards produces no child at all.
\<close>

fun split_lines :: "string \<Rightarrow> string list" where
  "split_lines [] = [[]]"
| "split_lines (c # cs) =
     (if c = CR then
        (case cs of
           [] \<Rightarrow> [[], []]
         | d # ds \<Rightarrow> if d = LF then [] # split_lines ds else [] # split_lines cs)
      else if c = LF then [] # split_lines cs
      else (case split_lines cs of
              [] \<Rightarrow> [[c]]
            | l # ls \<Rightarrow> (c # l) # ls))"

definition trim_start :: "string \<Rightarrow> string" where
  "trim_start s = dropWhile (\<lambda>c. c = SP) s"

definition trim_end :: "string \<Rightarrow> string" where
  "trim_end s = rev (dropWhile (\<lambda>c. c = SP) (rev s))"

fun trim_lines :: "bool \<Rightarrow> string list \<Rightarrow> string list" where
  "trim_lines first [] = []"
| "trim_lines first (l # ls) =
     (let l0 = map (\<lambda>c. if c = TAB then SP else c) l;
          l1 = (if first then l0 else trim_start l0);
          l2 = (if ls = [] then l1 else trim_end l1)
      in l2 # trim_lines False ls)"

fun join_lines :: "string list \<Rightarrow> string" where
  "join_lines [] = []"
| "join_lines [l] = l"
| "join_lines (l # ls) = l @ [SP] @ join_lines ls"

definition cleanJSXText :: "string \<Rightarrow> string" where
  "cleanJSXText s = join_lines (filter (\<lambda>l. l \<noteq> []) (trim_lines True (split_lines s)))"

subsection \<open>Evaluating a JSX literal\<close>

text \<open>
  \<^verbatim>\<open><t a1=v1 ...>children</t>\<close> evaluates to an element of type \<^verbatim>\<open>t\<close> with the given
  props and with the children that remain after the whitespace rule, in source order.
\<close>

fun createElement :: "jsx_element \<Rightarrow> node"
  and child_nodes :: "jsx_child \<Rightarrow> node list" where
  "createElement (JSXElement t ps ks) = Element t ps (concat (map child_nodes ks))"
| "child_nodes (JSXText s) = (let v = cleanJSXText s in if v = [] then [] else [Text v])"
| "child_nodes (JSXChild e) = [createElement e]"

subsection \<open>Footer\<close>

text \<open>A line break followed by \<open>n\<close> spaces of indentation, as between two tags of the file.\<close>

definition indent :: "nat \<Rightarrow> string" where
  "indent n = LF # replicate n SP"

text \<open>
  Lines 8 to 11 of Footer.jsx: the \<^verbatim>\<open>div\<close> opens at column 12, \<^verbatim>\<open>hr\<close> and \<^verbatim>\<open>a\<close> are on
  lines of their own at column 16, and the closing tag is back at column 12.
\<close>

definition footer_jsx :: jsx_element where
  "footer_jsx =
     JSXElement ''div'' [(''className'', ''text-center mt-5 mb-3'')]
       [JSXText (indent 16),
        JSXChild (JSXElement ''hr'' [] []),
        JSXText (indent 16),
        JSXChild (JSXElement ''a''
          [(''href'', ''https://humblepage.com''), (''className'', ''footer-link'')]
          [JSXChild (JSXElement ''small'' [] [JSXText ''SITE BY Leprechaun Design''])]),
        JSXText (indent 12)]"

text \<open>
  \<^verbatim>\<open>render()\<close> has the instance as its only (implicit) argument; its body is
  \<^verbatim>\<open>return (<div ...> ... </div>)\<close>.
\<close>

definition render :: "('p, 's, 'c) component \<Rightarrow> node completion" where
  "render this = Return (createElement footer_jsx)"

text \<open>
  \<^verbatim>\<open>Footer\<close> declares no constructor, so \<^verbatim>\<open>new Footer(props, context)\<close> runs the one of
  \<^verbatim>\<open>React.Component\<close>: it stores the props and the context and leaves the state
  undefined.
\<close>

definition new_Footer :: "'p \<Rightarrow> 'c \<Rightarrow> ('p, 's option, 'c) component" where
  "new_Footer p c = \<lparr>props = p, state = None, ctxt = c\<rparr>"

subsection \<open>Observing an element tree\<close>

text \<open>All nodes of a tree in document order (a node before its children, left to right).\<close>

fun nodes :: "node \<Rightarrow> node list" where
  "nodes (Text s) = [Text s]"
| "nodes (Element t ps ks) = Element t ps ks # concat (map nodes ks)"

fun has_tag :: "string \<Rightarrow> node \<Rightarrow> bool" where
  "has_tag t (Element t' ps ks) = (t' = t)"
| "has_tag t (Text s) = False"

fun is_text :: "node \<Rightarrow> bool" where
  "is_text (Element t ps ks) = False"
| "is_text (Text s) = True"

definition elements_by_tag :: "string \<Rightarrow> node \<Rightarrow> node list" where
  "elements_by_tag t root = filter (has_tag t) (nodes root)"

fun childNodes :: "node \<Rightarrow> node list" where
  "childNodes (Element t ps ks) = ks"
| "childNodes (Text s) = []"

fun attribute :: "string \<Rightarrow> node \<Rightarrow> string option" where
  "attribute k (Element t ps ks) = map_of ps k"
| "attribute k (Text s) = None"

fun textContent :: "node \<Rightarrow> string" where
  "textContent (Text s) = s"
| "textContent (Element t ps ks) = concat (map textContent ks)"

text \<open>
  The class attribute of an element is its \<^verbatim>\<open>className\<close> prop; the classes it carries are
  the tokens of that string between ASCII whitespace.
\<close>

definition is_space :: "char \<Rightarrow> bool" where
  "is_space c = (c = SP \<or> c = TAB \<or> c = LF \<or> c = FF \<or> c = CR)"

fun tokens_acc :: "string \<Rightarrow> string \<Rightarrow> string list" where
  "tokens_acc cur [] = (if cur = [] then [] else [rev cur])"
| "tokens_acc cur (c # cs) =
     (if is_space c
      then (if cur = [] then tokens_acc [] cs else rev cur # tokens_acc [] cs)
      else tokens_acc (c # cur) cs)"

definition classList :: "node \<Rightarrow> string list" where
  "classList n = (case attribute ''className'' n of
                    None \<Rightarrow> []
                  | Some v \<Rightarrow> tokens_acc [] v)"

text \<open>Position of the first element of a list that satisfies a predicate.\<close>

fun first_index :: "('a \<Rightarrow> bool) \<Rightarrow> 'a list \<Rightarrow> nat option" where
  "first_index P [] = None"
| "first_index P (x # xs) =
     (if P x then Some 0
      else (case first_index P xs of
              None \<Rightarrow> None
            | Some i \<Rightarrow> Some (Suc i)))"

text \<open>In \<open>xs\<close>, something satisfying \<open>P\<close> occurs, and before anything satisfying \<open>Q\<close> does.\<close>

definition precedes :: "('a \<Rightarrow> bool) \<Rightarrow> ('a \<Rightarrow> bool) \<Rightarrow> 'a list \<Rightarrow> bool" where
  "precedes P Q xs =
     (case first_index P xs of
        None \<Rightarrow> False
      | Some i \<Rightarrow> (case first_index Q xs of
                     None \<Rightarrow> False
                   | Some j \<Rightarrow> i < j))"

subsection \<open>Invocation in an ambient state\<close>

text \<open>
  A JavaScript method call runs against the ambient state of its realm (global object,
  module bindings, clock, random source, document, storage), which a body may read and
  update; \<open>'w\<close> stands for that state. The body of \<^verbatim>\<open>render()\<close> (lines 6 to 13) names no
  variable, assigns nothing and calls nothing besides building the JSX literal, so the
  call completes as \<open>render\<close> says and hands the state back as it received it.
\<close>

definition invoke_render :: "('p, 's, 'c) component \<Rightarrow> 'w \<Rightarrow> node completion \<times> 'w" where
  "invoke_render this w = (render this, w)"

subsection \<open>Static markup of an element tree\<close>

definition QUOT :: char where
  "QUOT = CHR 0x22"

definition APOS :: char where
  "APOS = CHR 0x27"

text \<open>The five characters that are written as entities in text and in attribute values.\<close>

definition escape_char :: "char \<Rightarrow> string" where
  "escape_char c =
     (if c = CHR ''&'' then ''&amp;''
      else if c = CHR ''<'' then ''&lt;''
      else if c = CHR ''>'' then ''&gt;''
      else if c = QUOT then ''&quot;''
      else if c = APOS then ''&#x27;''
      else [c])"

definition escape :: "string \<Rightarrow> string" where
  "escape s = concat (map escape_char s)"

text \<open>The props \<^verbatim>\<open>className\<close> and \<^verbatim>\<open>htmlFor\<close> are the attributes \<^verbatim>\<open>class\<close> and \<^verbatim>\<open>for\<close>.\<close>

definition attribute_name :: "string \<Rightarrow> string" where
  "attribute_name k =
     (if k = ''className'' then ''class''
      else if k = ''htmlFor'' then ''for''
      else k)"

definition markup_attribute :: "string \<times> string \<Rightarrow> string" where
  "markup_attribute kv =
     '' '' @ attribute_name (fst kv) @ ''='' @ [QUOT] @ escape (snd kv) @ [QUOT]"

text \<open>Elements that have no content and no closing tag.\<close>

definition void_tags :: "string list" where
  "void_tags = [''area'', ''base'', ''br'', ''col'', ''embed'', ''hr'', ''img'', ''input'',
                ''keygen'', ''link'', ''meta'', ''param'', ''source'', ''track'', ''wbr'']"

text \<open>
  The markup of a tree, one character of the result per byte: an opening tag with the
  attributes in the order of the props, the markup of the children, and the closing tag;
  a void element is written self-closed.
\<close>

fun markup :: "node \<Rightarrow> string" where
  "markup (Text s) = escape s"
| "markup (Element t ps ks) =
     ''<'' @ t @ concat (map markup_attribute ps) @
     (if t \<in> set void_tags then ''/>''
      else ''>'' @ concat (map markup ks) @ ''</'' @ t @ ''>'')"

section \<open>What render() returns\<close>

lemma split_lines_spaces: "split_lines (replicate n SP) = [replicate n SP]"
  by (induction n) (simp_all add: SP_def CR_def LF_def)

lemma indent_clean: "cleanJSXText (indent n) = []"
  by (simp add: cleanJSXText_def indent_def split_lines_spaces trim_start_def trim_end_def)
    (simp add: LF_def CR_def SP_def TAB_def)

lemma text_clean: "cleanJSXText ''SITE BY Leprechaun Design'' = ''SITE BY Leprechaun Design''"
  by (simp add: cleanJSXText_def LF_def CR_def SP_def TAB_def)

lemma footer_tree:
  "createElement footer_jsx =
     Element ''div'' [(''className'', ''text-center mt-5 mb-3'')]
       [Element ''hr'' [] [],
        Element ''a'' [(''href'', ''https://humblepage.com''), (''className'', ''footer-link'')]
          [Element ''small'' [] [Text ''SITE BY Leprechaun Design'']]]"
  by (simp add: footer_jsx_def indent_clean text_clean)

lemma render_returns: "render this = Return (createElement footer_jsx)"
  by (simp add: render_def)

lemma footer_nodes:
  "nodes (createElement footer_jsx) =
     [createElement footer_jsx,
      Element ''hr'' [] [],
      Element ''a'' [(''href'', ''https://humblepage.com''), (''className'', ''footer-link'')]
        [Element ''small'' [] [Text ''SITE BY Leprechaun Design'']],
      Element ''small'' [] [Text ''SITE BY Leprechaun Design''],
      Text ''SITE BY Leprechaun Design'']"
  by (simp add: footer_tree)

lemma footer_anchors:
  "elements_by_tag ''a'' (createElement footer_jsx) =
     [Element ''a'' [(''href'', ''https://humblepage.com''), (''className'', ''footer-link'')]
        [Element ''small'' [] [Text ''SITE BY Leprechaun Design'']]]"
  by (simp add: elements_by_tag_def footer_nodes) (simp add: footer_tree)

lemma footer_dividers:
  "elements_by_tag ''hr'' (createElement footer_jsx) = [Element ''hr'' [] []]"
  by (simp add: elements_by_tag_def footer_nodes) (simp add: footer_tree)

lemma footer_markup:
  "markup (createElement footer_jsx) =
     ''<div class='' @ [QUOT] @ ''text-center mt-5 mb-3'' @ [QUOT]
       @ ''><hr/><a href='' @ [QUOT] @ ''https://humblepage.com'' @ [QUOT]
       @ '' class='' @ [QUOT] @ ''footer-link'' @ [QUOT]
       @ ''><small>SITE BY Leprechaun Design</small></a></div>''"
  by (simp add: footer_tree markup_attribute_def attribute_name_def void_tags_def escape_def
      escape_char_def QUOT_def APOS_def)

section \<open>The claims\<close>

text \<open>
  C1. Whatever instance \<^verbatim>\<open>render()\<close> is invoked on, it returns a tree with exactly one
  \<^verbatim>\<open>a\<close> element among all its nodes, and the \<^verbatim>\<open>href\<close> of that element is
  \<^verbatim>\<open>https://humblepage.com\<close>.
\<close>

theorem render_one_anchor_href:
  "\<exists>root a. render this = Return root
      \<and> elements_by_tag ''a'' root = [a]
      \<and> length (elements_by_tag ''a'' root) = 1
      \<and> attribute ''href'' a = Some ''https://humblepage.com''"
  by (simp add: render_returns footer_anchors)

text \<open>
  C2. The text content of the hyperlink element of the returned tree (the concatenation
  of all text below it) is exactly \<^verbatim>\<open>SITE BY Leprechaun Design\<close>.
\<close>

theorem render_anchor_text:
  "\<exists>root a. render this = Return root
      \<and> elements_by_tag ''a'' root = [a]
      \<and> textContent a = ''SITE BY Leprechaun Design''"
  by (simp add: render_returns footer_anchors)

text \<open>
  C3. The returned tree has exactly one \<^verbatim>\<open>hr\<close> element among all its nodes, and in
  document order it comes before the hyperlink element.
\<close>

theorem render_one_divider_before_anchor:
  "\<exists>root. render this = Return root
      \<and> length (elements_by_tag ''hr'' root) = 1
      \<and> precedes (has_tag ''hr'') (has_tag ''a'') (nodes root)"
  by (simp add: render_returns footer_dividers footer_nodes precedes_def) (simp add: footer_tree)

text \<open>
  C4. \<^verbatim>\<open>render()\<close> is deterministic. Any two invocations, on any instances and in any
  ambient states, complete in the same way with the same tree. An invocation leaves the
  ambient state as it found it, and invoking again in the state the first invocation left
  gives the same result. The markup of the result is the same sequence of bytes every
  time, namely the one written out below.
\<close>

theorem render_deterministic:
  "fst (invoke_render this w) = fst (invoke_render this' w')
     \<and> snd (invoke_render this w) = w
     \<and> fst (invoke_render this (snd (invoke_render this w))) = fst (invoke_render this w)
     \<and> map_completion markup (fst (invoke_render this w)) =
         map_completion markup (fst (invoke_render this' w'))
     \<and> map_completion markup (fst (invoke_render this w)) =
         Return (''<div class='' @ [QUOT] @ ''text-center mt-5 mb-3'' @ [QUOT]
           @ ''><hr/><a href='' @ [QUOT] @ ''https://humblepage.com'' @ [QUOT]
           @ '' class='' @ [QUOT] @ ''footer-link'' @ [QUOT]
           @ ''><small>SITE BY Leprechaun Design</small></a></div>'')"
  by (simp add: invoke_render_def render_returns footer_markup)

text \<open>
  C5. The root of the returned tree is a \<^verbatim>\<open>div\<close> whose class attribute carries the
  centering class \<^verbatim>\<open>text-center\<close> and the vertical-margin classes \<^verbatim>\<open>mt-5\<close> and
  \<^verbatim>\<open>mb-3\<close>, and the one divider and the one hyperlink of the tree are children of
  that root.
\<close>

theorem render_root_container:
  "\<exists>root hr a. render this = Return root
      \<and> has_tag ''div'' root
      \<and> ''text-center'' \<in> set (classList root)
      \<and> ''mt-5'' \<in> set (classList root)
      \<and> ''mb-3'' \<in> set (classList root)
      \<and> elements_by_tag ''hr'' root = [hr] \<and> hr \<in> set (childNodes root)
      \<and> elements_by_tag ''a'' root = [a] \<and> a \<in> set (childNodes root)"
  by (simp add: render_returns footer_dividers footer_anchors)
    (simp add: footer_tree classList_def is_space_def SP_def TAB_def LF_def FF_def CR_def)

text \<open>
  C6. The only child of the hyperlink element is a \<^verbatim>\<open>small\<close> element, and the only
  child of that element is the text \<^verbatim>\<open>SITE BY Leprechaun Design\<close>.
\<close>

theorem render_anchor_small_text:
  "\<exists>root a s. render this = Return root
      \<and> elements_by_tag ''a'' root = [a]
      \<and> childNodes a = [s]
      \<and> has_tag ''small'' s
      \<and> childNodes s = [Text ''SITE BY Leprechaun Design'']"
  by (simp add: render_returns footer_anchors)

text \<open>
  C7. The class attribute of the hyperlink element carries the class \<^verbatim>\<open>footer-link\<close>
  (and no other class).
\<close>

theorem render_anchor_class:
  "\<exists>root a. render this = Return root
      \<and> elements_by_tag ''a'' root = [a]
      \<and> ''footer-link'' \<in> set (classList a)
      \<and> classList a = [''footer-link'']"
  by (simp add: render_returns footer_anchors classList_def is_space_def
      SP_def TAB_def LF_def FF_def CR_def)

text \<open>
  C8. \<^verbatim>\<open>render()\<close> cannot fail: on every instance it completes normally with a tree, and
  it never completes by throwing.
\<close>

theorem render_never_throws:
  "(\<exists>root. render this = Return root) \<and> (\<forall>e. render this \<noteq> Throw e)"
  by (simp add: render_def)

text \<open>
  C9. The result of \<^verbatim>\<open>render()\<close> does not depend on the props or the context the
  instance was constructed with, nor on any later value of its props, state or context.
\<close>

theorem render_ignores_props:
  "render (new_Footer p c) = render (new_Footer p' c')
     \<and> render (this\<lparr>props := q, state := st, ctxt := cx\<rparr>) = render this"
  by (simp add: render_def)

text \<open>
  C10. The root of the returned tree has exactly two children, the \<^verbatim>\<open>hr\<close> element first
  and the \<^verbatim>\<open>a\<close> element second, with no text node among them; and the \<^verbatim>\<open>a\<close> element
  has no \<^verbatim>\<open>target\<close> attribute.
\<close>

theorem render_two_children_no_target:
  "\<exists>root hr a. render this = Return root
      \<and> childNodes root = [hr, a]
      \<and> has_tag ''hr'' hr
      \<and> has_tag ''a'' a
      \<and> filter is_text (childNodes root) = []
      \<and> attribute ''target'' a = None"
  by (simp add: render_returns footer_tree)

end
